theory Spec2Isabelle
  imports
    Complex_Main
    "HOL-Library.Multiset"
    "HOL-Library.Char_ord"
    "HOL-Library.List_Lexorder"
    "HOL-Library.Product_Lexorder"
begin

section \<open>The data model of \<^verbatim>\<open>tram/models.py\<close>\<close>

text \<open>
  Every Django model class becomes a record whose fields are the columns the queries
  below read; the implicit auto-increment primary key \<^verbatim>\<open>id\<close> is written out. The
  \<^verbatim>\<open>created_on\<close> and \<^verbatim>\<open>updated_on\<close> columns are filled by the clock and read by no
  function of the module, so they are left out. A foreign key is the primary key of the
  row it points to; a nullable column is an \<open>option\<close>.
\<close>

text \<open>
  \<^verbatim>\<open>Sentence.disposition\<close> is a nullable character column. \<^verbatim>\<open>DISPOSITION_CHOICES\<close> names
  the three values an analyst can choose (\<^verbatim>\<open>'accept'\<close>, \<^verbatim>\<open>'reject'\<close> and \<^verbatim>\<open>None\<close>), but
  \<^verbatim>\<open>save()\<close> does not check the choices, so a row can hold any string.
\<close>

type_synonym disposition = "string option"

abbreviation Accept :: disposition where
  "Accept \<equiv> Some ''accept''"

abbreviation Reject :: disposition where
  "Reject \<equiv> Some ''reject''"

abbreviation NoDisposition :: disposition where
  "NoDisposition \<equiv> None"

definition DISPOSITION_CHOICES :: "disposition list" where
  "DISPOSITION_CHOICES = [Accept, Reject, NoDisposition]"

text \<open>\<^verbatim>\<open>JOB_STATUS_CHOICES\<close>: \<^verbatim>\<open>'queued'\<close> and \<^verbatim>\<open>'error'\<close>.\<close>

datatype job_status = Queued | Error

record AttackTechnique =
  at_id :: nat
  at_name :: string
  at_stix_id :: string
  attack_id :: string
  at_attack_url :: string
  at_matrix :: string

record AttackGroup =
  ag_id :: nat
  ag_name :: string
  ag_stix_id :: string
  ag_attack_id :: string
  ag_attack_url :: string
  ag_matrix :: string

text \<open>\<^verbatim>\<open>django.core.files.File\<close>: a named byte stream.\<close>

record File =
  f_name :: string
  f_content :: string

text \<open>The \<^verbatim>\<open>docfile\<close> column holds the name under which the storage keeps the file
  (empty when there is none).\<close>

record Document =
  doc_id :: nat
  docfile :: string
  doc_created_by :: "nat option"

record DocumentProcessingJob =
  dpj_id :: nat
  dpj_document :: nat
  dpj_status :: job_status
  dpj_message :: string
  dpj_created_by :: "nat option"

record Sentence =
  s_id :: nat
  s_text :: string
  s_document :: "nat option"
  s_order :: int
  s_report :: nat
  s_disposition :: disposition

text \<open>A mapping object that has not been saved yet has no primary key: \<open>stm_id\<close> is
  \<open>None\<close> until the row is written.\<close>

record SentenceTechniqueMapping =
  stm_id :: "nat option"
  stm_report :: nat
  stm_sentence :: nat
  stm_attack_technique :: "nat option"
  stm_confidence :: real

record ReportTechniqueMapping =
  rtm_id :: "nat option"
  rtm_report :: nat
  rtm_attack_technique :: nat
  rtm_confidence :: real

record ReportGroupMapping =
  rgm_id :: "nat option"
  rgm_report :: nat
  rgm_attack_group :: nat
  rgm_confidence :: real

text \<open>The database: one table (a list of rows) per model class.\<close>

record db =
  attack_techniques :: "AttackTechnique list"
  attack_groups :: "AttackGroup list"
  documents :: "Document list"
  document_processing_jobs :: "DocumentProcessingJob list"
  sentences :: "Sentence list"
  sentence_technique_mappings :: "SentenceTechniqueMapping list"
  report_technique_mappings :: "ReportTechniqueMapping list"
  report_group_mappings :: "ReportGroupMapping list"

text \<open>The \<^verbatim>\<open>constance\<close> configuration object, of which the module reads one key.\<close>

record config =
  ML_ACCEPT_THRESHOLD :: int

text \<open>The exceptions the module can raise.\<close>

datatype error =
    DoesNotExist
  | MultipleObjectsReturned
  | AssertionError
  | AttributeError string
  | FileNotFoundError
  | IsADirectoryError
  | SuspiciousFileOperation

section \<open>\<^verbatim>\<open>AttackTechnique.get_sentence_counts\<close>\<close>

text \<open>
  The many-to-many field \<^verbatim>\<open>sentences\<close> goes through \<^verbatim>\<open>SentenceTechniqueMapping\<close>, so
  \<^verbatim>\<open>annotate(... Count('sentences' ...))\<close> groups, per technique, the rows of the join
  technique -- mapping -- sentence: one row for every mapping row that points to the
  technique, paired with the sentence that mapping row points to. The join is a left
  outer one, so a technique without mapping rows stays in the result with an empty group.
\<close>

definition sentences_join :: "db \<Rightarrow> AttackTechnique \<Rightarrow> (SentenceTechniqueMapping \<times> Sentence) list" where
  "sentences_join st t =
     concat (map (\<lambda>m. map (\<lambda>s. (m, s)) (filter (\<lambda>s. s_id s = stm_sentence m) (sentences st)))
       (filter (\<lambda>m. stm_attack_technique m = Some (at_id t)) (sentence_technique_mappings st)))"

text \<open>\<^verbatim>\<open>Count('sentences', filter=Q(sentences__disposition=d))\<close> over that group.\<close>

definition Count_sentences_filter :: "db \<Rightarrow> AttackTechnique \<Rightarrow> disposition \<Rightarrow> nat" where
  "Count_sentences_filter st t d =
     length (filter (\<lambda>(m, s). s_disposition s = d) (sentences_join st t))"

text \<open>\<^verbatim>\<open>Count('sentences')\<close> over that group.\<close>

definition Count_sentences :: "db \<Rightarrow> AttackTechnique \<Rightarrow> nat" where
  "Count_sentences st t = length (sentences_join st t)"

text \<open>An \<^verbatim>\<open>AttackTechnique\<close> object carrying the three annotations.\<close>

record technique_counts =
  technique :: AttackTechnique
  accepted_sentences :: nat
  pending_sentences :: nat
  total_sentences :: nat

definition annotate :: "db \<Rightarrow> AttackTechnique \<Rightarrow> technique_counts" where
  "annotate st t =
     \<lparr> technique = t,
       accepted_sentences = Count_sentences_filter st t Accept,
       pending_sentences = Count_sentences_filter st t NoDisposition,
       total_sentences = Count_sentences st t \<rparr>"

text \<open>
  \<^verbatim>\<open>order_by('-accepted_sentences', 'attack_id')\<close>: descending in the accepted count,
  then ascending in \<^verbatim>\<open>attack_id\<close>. The key is ordered lexicographically as a pair, and
  strings are compared character by character on their codes.
\<close>

definition order_key :: "technique_counts \<Rightarrow> int \<times> string" where
  "order_key r = (- int (accepted_sentences r), attack_id (technique r))"

text \<open>The query, in the order the source chains it: annotate, order, filter.\<close>

definition get_sentence_counts :: "db \<Rightarrow> int \<Rightarrow> technique_counts list" where
  "get_sentence_counts st accept_threshold =
     filter (\<lambda>r. accept_threshold \<le> int (accepted_sentences r))
       (sort_key order_key (map (annotate st) (attack_techniques st)))"

text \<open>
  What the specification calls the entries "with at least one mapped sentence": the
  group of the technique in the join is not empty.
\<close>

definition has_mapped_sentence :: "db \<Rightarrow> AttackTechnique \<Rightarrow> bool" where
  "has_mapped_sentence st t = (sentences_join st t \<noteq> [])"

text \<open>
  What the specification calls counting "each distinct sentence-to-entry association
  once": the number of different sentences that some mapping row ties to the technique,
  and the same number restricted to the sentences of one disposition.
\<close>

definition spec_distinct_total :: "db \<Rightarrow> AttackTechnique \<Rightarrow> nat" where
  "spec_distinct_total st t = length (remdups (map (\<lambda>(m, s). s_id s) (sentences_join st t)))"

definition spec_distinct_count :: "db \<Rightarrow> AttackTechnique \<Rightarrow> disposition \<Rightarrow> nat" where
  "spec_distinct_count st t d =
     length (remdups (map (\<lambda>(m, s). s_id s)
       (filter (\<lambda>(m, s). s_disposition s = d) (sentences_join st t))))"

text \<open>The mapping rows whose \<^verbatim>\<open>attack_technique\<close> foreign key is the technique.\<close>

definition mappings_to :: "db \<Rightarrow> AttackTechnique \<Rightarrow> SentenceTechniqueMapping list" where
  "mappings_to st t =
     filter (\<lambda>m. stm_attack_technique m = Some (at_id t)) (sentence_technique_mappings st)"

text \<open>
  What the specification calls "rejected-but-present": the number of sentences that have
  disposition reject and a mapping row to the technique. It is read off the two tables,
  each sentence counted once; the query does not compute it.
\<close>

definition rejected_but_present :: "db \<Rightarrow> AttackTechnique \<Rightarrow> nat" where
  "rejected_but_present st t =
     length (filter
       (\<lambda>s. s_disposition s = Reject \<and> list_ex (\<lambda>m. stm_sentence m = s_id s) (mappings_to st t))
       (sentences st))"

section \<open>The \<^verbatim>\<open>get_accepted_mappings\<close> class methods\<close>

text \<open>
  Each \<^verbatim>\<open>get_accepted_mappings\<close> first looks a counting method up by name on a taxonomy
  class; Python raises \<^verbatim>\<open>AttributeError\<close> when the class has no such attribute. The
  lookups below list the counting class methods the module defines: \<^verbatim>\<open>AttackTechnique\<close>
  has \<^verbatim>\<open>get_sentence_counts\<close> and nothing else, \<^verbatim>\<open>AttackGroup\<close> has none (its body holds
  the columns and \<^verbatim>\<open>__str__\<close> only).
\<close>

record group_counts =
  group :: AttackGroup
  ag_accepted :: nat
  ag_pending :: nat
  ag_total :: nat

definition AttackTechnique_getattr ::
    "string \<Rightarrow> error + (db \<Rightarrow> int \<Rightarrow> technique_counts list)" where
  "AttackTechnique_getattr name =
     (if name = ''get_sentence_counts'' then Inr get_sentence_counts
      else Inl (AttributeError name))"

definition AttackGroup_getattr ::
    "string \<Rightarrow> error + (db \<Rightarrow> int \<Rightarrow> group_counts list)" where
  "AttackGroup_getattr name = Inl (AttributeError name)"

text \<open>
  \<^verbatim>\<open>filter(attack_technique__in=attack_techniques)\<close> keeps the rows whose foreign key
  is the primary key of one of the listed techniques; a null foreign key is in no list.
\<close>

definition SentenceTechniqueMapping_get_accepted_mappings ::
    "config \<Rightarrow> db \<Rightarrow> error + SentenceTechniqueMapping list" where
  "SentenceTechniqueMapping_get_accepted_mappings cfg st =
     (case AttackTechnique_getattr ''get_sentence_counts'' of
        Inl e \<Rightarrow> Inl e
      | Inr counts \<Rightarrow>
          let qualifying = counts st (ML_ACCEPT_THRESHOLD cfg)
          in Inr (filter
                (\<lambda>m. case stm_attack_technique m of
                        None \<Rightarrow> False
                      | Some k \<Rightarrow> k \<in> set (map (\<lambda>r. at_id (technique r)) qualifying))
                (sentence_technique_mappings st)))"

definition ReportTechniqueMapping_get_accepted_mappings ::
    "config \<Rightarrow> db \<Rightarrow> error + ReportTechniqueMapping list" where
  "ReportTechniqueMapping_get_accepted_mappings cfg st =
     (case AttackTechnique_getattr ''get_report_counts'' of
        Inl e \<Rightarrow> Inl e
      | Inr counts \<Rightarrow>
          let qualifying = counts st (ML_ACCEPT_THRESHOLD cfg)
          in Inr (filter
                (\<lambda>m. rtm_attack_technique m \<in> set (map (\<lambda>r. at_id (technique r)) qualifying))
                (report_technique_mappings st)))"

definition ReportGroupMapping_get_accepted_mappings ::
    "config \<Rightarrow> db \<Rightarrow> error + ReportGroupMapping list" where
  "ReportGroupMapping_get_accepted_mappings cfg st =
     (case AttackGroup_getattr ''get_report_counts'' of
        Inl e \<Rightarrow> Inl e
      | Inr counts \<Rightarrow>
          let qualifying = counts st (ML_ACCEPT_THRESHOLD cfg)
          in Inr (filter
                (\<lambda>m. rgm_attack_group m \<in> set (map (\<lambda>r. ag_id (group r)) qualifying))
                (report_group_mappings st)))"

section \<open>\<^verbatim>\<open>SentenceTechniqueMapping.from_mapping\<close>\<close>

text \<open>\<^verbatim>\<open>AttackTechnique.objects.get(attack_id=...)\<close>: the one matching row, or an
  exception when there is none or more than one.\<close>

definition AttackTechnique_objects_get :: "db \<Rightarrow> string \<Rightarrow> error + AttackTechnique" where
  "AttackTechnique_objects_get st aid =
     (case filter (\<lambda>t. attack_id t = aid) (attack_techniques st) of
        [] \<Rightarrow> Inl DoesNotExist
      | [t] \<Rightarrow> Inr t
      | _ \<Rightarrow> Inl MultipleObjectsReturned)"

text \<open>The second argument of \<^verbatim>\<open>from_mapping\<close>: a suggestion of the scorer, read through
  its attributes \<^verbatim>\<open>attack_technique\<close> (an external identifier) and \<^verbatim>\<open>confidence\<close>.\<close>

record suggestion =
  sg_attack_technique :: string
  sg_confidence :: real

text \<open>
  The method fills a fresh mapping object and returns it; it never calls \<^verbatim>\<open>save\<close>, so
  the database it returns is the one it was given.
\<close>

definition from_mapping ::
    "db \<Rightarrow> Sentence \<Rightarrow> suggestion \<Rightarrow> (error + SentenceTechniqueMapping) \<times> db" where
  "from_mapping st mapping_input mapping =
     (case AttackTechnique_objects_get st (sg_attack_technique mapping) of
        Inl e \<Rightarrow> (Inl e, st)
      | Inr tech \<Rightarrow>
          (Inr \<lparr> stm_id = None,
                 stm_report = s_report mapping_input,
                 stm_sentence = s_id mapping_input,
                 stm_attack_technique = Some (at_id tech),
                 stm_confidence = sg_confidence mapping \<rparr>, st))"

section \<open>The file system and the file storage\<close>

text \<open>The file system: what each path resolves to, if anything.\<close>

datatype fs_node = RegularFile string | Directory

type_synonym filesystem = "string \<rightharpoonup> fs_node"

definition os_path_isfile :: "filesystem \<Rightarrow> string \<Rightarrow> bool" where
  "os_path_isfile fs path =
     (case fs path of Some (RegularFile bytes) \<Rightarrow> True | Some Directory \<Rightarrow> False | None \<Rightarrow> False)"

definition os_remove :: "filesystem \<Rightarrow> string \<Rightarrow> error + filesystem" where
  "os_remove fs path =
     (case fs path of
        None \<Rightarrow> Inl FileNotFoundError
      | Some Directory \<Rightarrow> Inl IsADirectoryError
      | Some (RegularFile bytes) \<Rightarrow> Inr (fs(path := None)))"

text \<open>
  Saving a document hands its file to the storage backend of the \<^verbatim>\<open>FileField\<close>, which is
  library code outside the module. The backend is a parameter here: given the file system
  and the file it either raises or returns the name it stored the file under (which need
  not be the name of the file: the backend cleans names and avoids names already taken),
  and in both cases the file system it leaves.
\<close>

type_synonym storage_save = "filesystem \<Rightarrow> File \<Rightarrow> (error + string) \<times> filesystem"

section \<open>\<^verbatim>\<open>DocumentProcessingJob.create_from_file\<close>\<close>

text \<open>The values a caller may pass for \<^verbatim>\<open>f\<close>: a \<^verbatim>\<open>File\<close> (or subclass) instance, or
  something else.\<close>

datatype pyobj = FileObj File | NoneObj | StrObj string | IntObj int | BytesObj string

fun isinstance_File :: "pyobj \<Rightarrow> bool" where
  "isinstance_File (FileObj fl) = True"
| "isinstance_File other = False"

text \<open>The primary key an insert assigns: one above every key of the table.\<close>

definition next_id :: "nat list \<Rightarrow> nat" where
  "next_id ids = Suc (fold max ids 0)"

text \<open>The insert of a document row with a given \<^verbatim>\<open>docfile\<close> value.\<close>

definition Document_insert :: "db \<Rightarrow> string \<Rightarrow> Document \<times> db" where
  "Document_insert st name =
     (let doc = \<lparr> doc_id = next_id (map doc_id (documents st)),
                  docfile = name, doc_created_by = None \<rparr>
      in (doc, st\<lparr>documents := documents st @ [doc]\<rparr>))"

text \<open>
  \<^verbatim>\<open>doc = Document(docfile=f); doc.save()\<close>. Before the row is inserted the field commits
  the file: a file with a name goes to the storage, and an exception of the storage ends
  the save with no row written; a file without a name counts as no file, the storage is
  not called and the row is written with an empty \<^verbatim>\<open>docfile\<close>.
\<close>

definition Document_save ::
    "storage_save \<Rightarrow> db \<Rightarrow> filesystem \<Rightarrow> File \<Rightarrow> (error + Document) \<times> db \<times> filesystem" where
  "Document_save storage st fs fl =
     (if f_name fl = [] then
        (let (doc, st1) = Document_insert st [] in (Inr doc, st1, fs))
      else case storage fs fl of
        (Inl e, fs1) \<Rightarrow> (Inl e, st, fs1)
      | (Inr name, fs1) \<Rightarrow>
          (let (doc, st1) = Document_insert st name in (Inr doc, st1, fs1)))"

text \<open>\<^verbatim>\<open>dpj = DocumentProcessingJob(document=doc); dpj.save()\<close>, with the column defaults
  \<^verbatim>\<open>status='queued'\<close> and \<^verbatim>\<open>message=''\<close>.\<close>

definition DocumentProcessingJob_save :: "db \<Rightarrow> Document \<Rightarrow> DocumentProcessingJob \<times> db" where
  "DocumentProcessingJob_save st doc =
     (let dpj = \<lparr> dpj_id = next_id (map dpj_id (document_processing_jobs st)),
                  dpj_document = doc_id doc, dpj_status = Queued,
                  dpj_message = [], dpj_created_by = None \<rparr>
      in (dpj, st\<lparr>document_processing_jobs := document_processing_jobs st @ [dpj]\<rparr>))"

definition create_from_file ::
    "storage_save \<Rightarrow> db \<Rightarrow> filesystem \<Rightarrow> pyobj
       \<Rightarrow> (error + DocumentProcessingJob) \<times> db \<times> filesystem" where
  "create_from_file storage st fs f =
     (if \<not> isinstance_File f then (Inl AssertionError, st, fs)
      else case f of
        FileObj fl \<Rightarrow>
          (case Document_save storage st fs fl of
             (Inl e, st1, fs1) \<Rightarrow> (Inl e, st1, fs1)
           | (Inr doc, st1, fs1) \<Rightarrow>
               (let (dpj, st2) = DocumentProcessingJob_save st1 doc
                in (Inr dpj, st2, fs1)))
      | other \<Rightarrow> (Inl AssertionError, st, fs))"

text \<open>
  A storage in the manner of the library's file-system storage under \<^verbatim>\<open>/media\<close>: a name
  that is an absolute path or has a \<^verbatim>\<open>..\<close> component is refused with
  \<^verbatim>\<open>SuspiciousFileOperation\<close> and nothing is written; any other file is written under the
  root. The name the library then settles on (cleaned, and with a random suffix when the
  name is taken) is the first argument.
\<close>

primrec path_parts :: "string \<Rightarrow> string list" where
  "path_parts [] = [[]]"
| "path_parts (c # cs) =
     (if c = CHR ''/'' then [] # path_parts cs
      else case path_parts cs of
             [] \<Rightarrow> [[c]]
           | p # ps \<Rightarrow> (c # p) # ps)"

definition media_path :: "string \<Rightarrow> string" where
  "media_path name = ''/media/'' @ name"

definition media_storage_save :: "string \<Rightarrow> storage_save" where
  "media_storage_save available_name fs fl =
     (if take 1 (f_name fl) = ''/'' \<or> ''..'' \<in> set (path_parts (f_name fl))
      then (Inl SuspiciousFileOperation, fs)
      else (Inr available_name,
            fs(media_path available_name \<mapsto> RegularFile (f_content fl))))"

section \<open>\<^verbatim>\<open>_delete_file\<close> and the \<^verbatim>\<open>post_delete\<close> receiver\<close>

text \<open>\<^verbatim>\<open>_delete_file\<close> (a HOL name cannot begin with an underscore).\<close>

definition delete_file :: "filesystem \<Rightarrow> string \<Rightarrow> error + filesystem" where
  "delete_file fs path = (if os_path_isfile fs path then os_remove fs path else Inr fs)"

text \<open>
  The receiver of \<^verbatim>\<open>post_delete\<close> for \<^verbatim>\<open>Document\<close>. A field file is true when its name is
  not empty; \<open>storage_path\<close> is the storage backend's map from a name to the path of
  the file on disk.
\<close>

definition delete_file_post_delete ::
    "(string \<Rightarrow> string) \<Rightarrow> filesystem \<Rightarrow> Document \<Rightarrow> error + filesystem" where
  "delete_file_post_delete storage_path fs inst =
     (if docfile inst \<noteq> [] then delete_file fs (storage_path (docfile inst))
      else Inr fs)"

text \<open>Running the cleanup a second time on what the first run left.\<close>

definition delete_file_twice :: "filesystem \<Rightarrow> string \<Rightarrow> error + filesystem" where
  "delete_file_twice fs path =
     (case delete_file fs path of Inl e \<Rightarrow> Inl e | Inr fs1 \<Rightarrow> delete_file fs1 path)"

section \<open>Example data\<close>

definition T1003 :: AttackTechnique where
  "T1003 = \<lparr> at_id = 1, at_name = ''OS Credential Dumping'', at_stix_id = ''ap-1'',
             attack_id = ''T1003'', at_attack_url = ''u1'', at_matrix = ''enterprise'' \<rparr>"

definition T1059 :: AttackTechnique where
  "T1059 = \<lparr> at_id = 2, at_name = ''Command and Scripting Interpreter'', at_stix_id = ''ap-2'',
             attack_id = ''T1059'', at_attack_url = ''u2'', at_matrix = ''enterprise'' \<rparr>"

definition T1105 :: AttackTechnique where
  "T1105 = \<lparr> at_id = 3, at_name = ''Ingress Tool Transfer'', at_stix_id = ''ap-3'',
             attack_id = ''T1105'', at_attack_url = ''u3'', at_matrix = ''enterprise'' \<rparr>"

definition sentence :: "nat \<Rightarrow> disposition \<Rightarrow> Sentence" where
  "sentence k d = \<lparr> s_id = k, s_text = ''text'', s_document = None, s_order = 1000,
                    s_report = 1, s_disposition = d \<rparr>"

definition stm :: "nat \<Rightarrow> nat \<Rightarrow> nat option \<Rightarrow> SentenceTechniqueMapping" where
  "stm k s t = \<lparr> stm_id = Some k, stm_report = 1, stm_sentence = s,
                 stm_attack_technique = t, stm_confidence = 1 / 2 \<rparr>"

definition empty_db :: db where
  "empty_db = \<lparr> attack_techniques = [], attack_groups = [], documents = [],
                document_processing_jobs = [], sentences = [],
                sentence_technique_mappings = [], report_technique_mappings = [],
                report_group_mappings = [] \<rparr>"

text \<open>Technique T1003 with three mapped sentences (accept, accept, none), T1059 with
  an accepted and a rejected sentence, T1105 with an accepted sentence, and one mapping
  row without a target.\<close>

definition example_db :: db where
  "example_db = empty_db
     \<lparr> attack_techniques := [T1105, T1059, T1003],
       sentences := [sentence 1 Accept, sentence 2 Accept, sentence 3 NoDisposition,
                     sentence 4 Accept, sentence 5 Reject, sentence 6 Accept],
       sentence_technique_mappings :=
         [stm 1 1 (Some 1), stm 2 2 (Some 1), stm 3 3 (Some 1), stm 4 4 (Some 2),
          stm 5 5 None, stm 6 6 (Some 3), stm 7 5 (Some 2)] \<rparr>"

text \<open>One accepted sentence proposed twice for the same technique.\<close>

definition duplicate_db :: db where
  "duplicate_db = empty_db
     \<lparr> attack_techniques := [T1003],
       sentences := [sentence 1 Accept],
       sentence_technique_mappings := [stm 1 1 (Some 1), stm 2 1 (Some 1)] \<rparr>"

text \<open>A registry of one technique and nothing else.\<close>

definition unmapped_db :: db where
  "unmapped_db = empty_db \<lparr> attack_techniques := [T1003] \<rparr>"

text \<open>A rejected sentence proposed twice for the same technique.\<close>

definition rejected_twice_db :: db where
  "rejected_twice_db = empty_db
     \<lparr> attack_techniques := [T1003],
       sentences := [sentence 1 Reject],
       sentence_technique_mappings := [stm 1 1 (Some 1), stm 2 1 (Some 1)] \<rparr>"

text \<open>A mapped sentence whose disposition is none of the three choices.\<close>

definition unchecked_db :: db where
  "unchecked_db = empty_db
     \<lparr> attack_techniques := [T1003],
       sentences := [sentence 1 (Some ''maybe'')],
       sentence_technique_mappings := [stm 1 1 (Some 1)] \<rparr>"

text \<open>An uploaded file, one opened from an absolute path, one without a name, and a
  document row for the first.\<close>

definition report_pdf :: File where
  "report_pdf = \<lparr> f_name = ''report.pdf'', f_content = ''bytes'' \<rparr>"

definition tmp_report_pdf :: File where
  "tmp_report_pdf = \<lparr> f_name = ''/tmp/report.pdf'', f_content = ''bytes'' \<rparr>"

definition unnamed_file :: File where
  "unnamed_file = \<lparr> f_name = [], f_content = ''bytes'' \<rparr>"

definition report_doc :: Document where
  "report_doc = \<lparr> doc_id = 1, docfile = ''report.pdf'', doc_created_by = None \<rparr>"

section \<open>Auxiliary facts\<close>

lemmas example_defs = example_db_def duplicate_db_def unmapped_db_def rejected_twice_db_def
  unchecked_db_def empty_db_def
  T1003_def T1059_def T1105_def sentence_def stm_def

lemma count_by_disposition:
  assumes "list_all (\<lambda>(m, s). s_disposition s \<in> set DISPOSITION_CHOICES) rows"
  shows "length (filter (\<lambda>(m, s). s_disposition s = Accept) rows)
   + length (filter (\<lambda>(m, s). s_disposition s = NoDisposition) rows)
   + length (filter (\<lambda>(m, s). s_disposition s = Reject) rows)
   = length (rows :: (SentenceTechniqueMapping \<times> Sentence) list)"
  using assms
proof (induction rows)
  case Nil
  show ?case by simp
next
  case (Cons r rows)
  obtain m s where r: "r = (m, s)" by (cases r)
  from Cons.prems have "s_disposition s = Accept \<or> s_disposition s = Reject
      \<or> s_disposition s = NoDisposition"
    by (simp add: r DISPOSITION_CHOICES_def)
  moreover from Cons have "length (filter (\<lambda>(m, s). s_disposition s = Accept) rows)
   + length (filter (\<lambda>(m, s). s_disposition s = NoDisposition) rows)
   + length (filter (\<lambda>(m, s). s_disposition s = Reject) rows) = length rows"
    by simp
  ultimately show ?case by (auto simp: r)
qed

lemma length_filter_mono:
  "(\<And>x. P x \<Longrightarrow> Q x) \<Longrightarrow> length (filter P xs) \<le> length (filter Q xs)"
  by (induction xs) auto

lemma technique_annotate [simp]: "technique (annotate st t) = t"
  by (simp add: annotate_def)

lemma accepted_annotate:
  "accepted_sentences (annotate st t) = Count_sentences_filter st t Accept"
  by (simp add: annotate_def)

lemma set_get_sentence_counts:
  "set (get_sentence_counts st thr) =
     {r \<in> annotate st ` set (attack_techniques st). thr \<le> int (accepted_sentences r)}"
  by (auto simp: get_sentence_counts_def)

lemma sorted_get_sentence_counts:
  "sorted (map order_key (get_sentence_counts st thr))"
  unfolding get_sentence_counts_def by (rule sorted_filter) simp

lemma count_disposition_mset:
  "length (filter (\<lambda>(m, s). s_disposition s = d) rows)
     = count (mset (map (\<lambda>(m, s). s_disposition s) rows)) d"
  by (induction rows) auto

lemma filter_by_key_singleton:
  "distinct (map f xs) \<Longrightarrow> k \<in> set (map f xs) \<Longrightarrow>
     \<exists>x. filter (\<lambda>x. f x = k) xs = [x] \<and> find (\<lambda>x. f x = k) xs = Some x"
proof (induction xs)
  case Nil
  then show ?case by simp
next
  case (Cons a xs)
  show ?case
  proof (cases "f a = k")
    case True
    with Cons.prems have "k \<notin> f ` set xs" by simp
    then have "filter (\<lambda>x. f x = k) xs = []"
      unfolding filter_empty_conv by blast
    with True show ?thesis by simp
  next
    case False
    with Cons show ?thesis by auto
  qed
qed

lemma join_filter_length:
  fixes ss :: "Sentence list" and ms :: "SentenceTechniqueMapping list"
  shows "length (filter (\<lambda>(m, s). Q s)
      (concat (map (\<lambda>m. map (\<lambda>s. (m, s)) (filter (\<lambda>s. s_id s = stm_sentence m) ss)) ms)))
   = length (concat (map (\<lambda>m. filter (\<lambda>s. s_id s = stm_sentence m \<and> Q s) ss) ms))"
proof (induction ms)
  case Nil
  show ?case by simp
next
  case (Cons m ms)
  have "length (filter (\<lambda>(m, s). Q s) (map (\<lambda>s. (m, s)) xs)) = length (filter Q xs)"
    for xs :: "Sentence list" and m :: SentenceTechniqueMapping
    by (induction xs) simp_all
  with Cons show ?case by simp
qed

lemma join_pieces_distinct:
  fixes ss :: "Sentence list" and ms :: "SentenceTechniqueMapping list"
  assumes "distinct (map stm_sentence ms)" and "distinct ss"
  shows "distinct (concat (map (\<lambda>m. filter (\<lambda>s. s_id s = stm_sentence m \<and> Q s) ss) ms))"
  using assms(1)
proof (induction ms)
  case Nil
  show ?case by simp
next
  case (Cons m ms)
  from Cons.prems have fresh: "stm_sentence m \<notin> stm_sentence ` set ms"
    and rest: "distinct (map stm_sentence ms)"
    by simp_all
  have "set (filter (\<lambda>s. s_id s = stm_sentence m \<and> Q s) ss)
          \<inter> set (concat (map (\<lambda>m. filter (\<lambda>s. s_id s = stm_sentence m \<and> Q s) ss) ms)) = {}"
    using fresh by (fastforce simp: image_iff)
  with Cons.IH [OF rest] assms(2) show ?case by simp
qed

lemma join_pieces_set:
  fixes ss :: "Sentence list" and ms :: "SentenceTechniqueMapping list"
  shows "set (concat (map (\<lambda>m. filter (\<lambda>s. s_id s = stm_sentence m \<and> Q s) ss) ms))
     = set (filter (\<lambda>s. Q s \<and> list_ex (\<lambda>m. stm_sentence m = s_id s) ms) ss)"
  by (auto simp: list_ex_iff)

lemma join_counts_sentences:
  fixes ss :: "Sentence list" and ms :: "SentenceTechniqueMapping list"
  assumes "distinct (map s_id ss)" and "distinct (map stm_sentence ms)"
  shows "length (filter (\<lambda>(m, s). Q s)
      (concat (map (\<lambda>m. map (\<lambda>s. (m, s)) (filter (\<lambda>s. s_id s = stm_sentence m) ss)) ms)))
   = length (filter (\<lambda>s. Q s \<and> list_ex (\<lambda>m. stm_sentence m = s_id s) ms) ss)"
proof -
  from assms(1) have d: "distinct ss" by (rule distinct_map [THEN iffD1, THEN conjunct1])
  let ?L = "concat (map (\<lambda>m. filter (\<lambda>s. s_id s = stm_sentence m \<and> Q s) ss) ms)"
  let ?F = "filter (\<lambda>s. Q s \<and> list_ex (\<lambda>m. stm_sentence m = s_id s) ms) ss"
  have "length ?L = card (set ?L)"
    by (rule distinct_card [symmetric, OF join_pieces_distinct [OF assms(2) d]])
  also have "\<dots> = card (set ?F)" by (simp only: join_pieces_set)
  also have "\<dots> = length ?F"
  proof (rule distinct_card)
    from d show "distinct ?F" by (rule distinct_filter)
  qed
  finally show ?thesis by (simp only: join_filter_length)
qed

lemma Count_rejected_sentences:
  assumes "distinct (map s_id (sentences st))"
    and "distinct (map stm_sentence (mappings_to st t))"
  shows "Count_sentences_filter st t Reject = rejected_but_present st t"
  using join_counts_sentences [OF assms [unfolded mappings_to_def],
      of "\<lambda>s. s_disposition s = Reject"]
  by (simp add: Count_sentences_filter_def sentences_join_def rejected_but_present_def
      mappings_to_def)

lemma join_dispositions_valid:
  assumes "list_all (\<lambda>s. s_disposition s \<in> set DISPOSITION_CHOICES) (sentences st)"
  shows "list_all (\<lambda>(m, s). s_disposition s \<in> set DISPOSITION_CHOICES) (sentences_join st t)"
  using assms by (auto simp: list_all_iff sentences_join_def)

lemma objects_get_absent:
  "aid \<notin> attack_id ` set (attack_techniques st) \<Longrightarrow>
     AttackTechnique_objects_get st aid = Inl DoesNotExist"
proof -
  assume "aid \<notin> attack_id ` set (attack_techniques st)"
  then have "filter (\<lambda>t. attack_id t = aid) (attack_techniques st) = []"
    unfolding filter_empty_conv by blast
  then show ?thesis by (simp add: AttackTechnique_objects_get_def)
qed

lemma objects_get_present:
  assumes "distinct (map attack_id (attack_techniques st))"
    and "t \<in> set (attack_techniques st)"
  shows "AttackTechnique_objects_get st (attack_id t) = Inr t"
proof -
  from assms(2) have "attack_id t \<in> set (map attack_id (attack_techniques st))"
    by simp
  from filter_by_key_singleton [OF assms(1) this] obtain x where
    x: "filter (\<lambda>y. attack_id y = attack_id t) (attack_techniques st) = [x]" by blast
  from assms(2) have "t \<in> set (filter (\<lambda>y. attack_id y = attack_id t) (attack_techniques st))"
    by simp
  with x have "x = t" by simp
  with x show ?thesis
    by (simp add: AttackTechnique_objects_get_def)
qed

lemma fold_max_ge: "x \<in> set xs \<Longrightarrow> x \<le> fold max xs (a::nat)"
proof (induction xs arbitrary: a)
  case Nil
  then show ?case by simp
next
  case (Cons y ys)
  have mono: "a \<le> fold max zs a" for zs and a :: nat
  proof (induction zs arbitrary: a)
    case Nil
    show ?case by simp
  next
    case (Cons z zs)
    have "a \<le> max z a" by simp
    also have "\<dots> \<le> fold max zs (max z a)" by (rule Cons.IH)
    finally show ?case by simp
  qed
  show ?case
  proof (cases "x = y")
    case True
    have "y \<le> max y a" by simp
    also have "\<dots> \<le> fold max ys (max y a)" by (rule mono)
    finally show ?thesis using True by simp
  next
    case False
    with Cons.prems have "x \<in> set ys" by simp
    from Cons.IH [OF this] show ?thesis by simp
  qed
qed

lemma next_id_fresh: "next_id ids \<notin> set ids"
proof
  assume "next_id ids \<in> set ids"
  from fold_max_ge [OF this, of 0] show False
    by (simp add: next_id_def)
qed

section \<open>The acceptance scenario\<close>

text \<open>
  Claim C1. For a technique of the registry whose group in the join holds exactly three
  rows, with sentence dispositions accept, accept and none (in any order),
  \<^verbatim>\<open>get_sentence_counts\<close> with threshold 2 returns the technique annotated with accepted 2,
  pending 1 and total 3, and \<^verbatim>\<open>SentenceTechniqueMapping.get_accepted_mappings\<close> with the
  configured threshold 2 returns every mapping row that points to the technique, the one of
  the pending sentence included.
\<close>

theorem scenario_accept_accept_none:
  assumes "t \<in> set (attack_techniques st)"
    and "mset (map (\<lambda>(m, s). s_disposition s) (sentences_join st t))
           = {#Accept, Accept, NoDisposition#}"
  shows "\<lparr> technique = t, accepted_sentences = 2, pending_sentences = 1,
            total_sentences = 3 \<rparr> \<in> set (get_sentence_counts st 2)
         \<and> (\<exists>ms. SentenceTechniqueMapping_get_accepted_mappings \<lparr> ML_ACCEPT_THRESHOLD = 2 \<rparr> st
                    = Inr ms \<and> set (mappings_to st t) \<subseteq> set ms)"
proof -
  have cnt: "Count_sentences_filter st t d = count {#Accept, Accept, NoDisposition#} d" for d
    unfolding Count_sentences_filter_def count_disposition_mset assms(2) ..
  have acc: "Count_sentences_filter st t Accept = 2"
    and pen: "Count_sentences_filter st t NoDisposition = 1"
    by (simp_all add: cnt)
  have "size (mset (map (\<lambda>(m, s). s_disposition s) (sentences_join st t))) = 3"
    unfolding assms(2) by simp
  then have tot: "Count_sentences st t = 3"
    by (simp add: Count_sentences_def)
  have row: "annotate st t = \<lparr> technique = t, accepted_sentences = 2, pending_sentences = 1,
            total_sentences = 3 \<rparr>"
    by (simp add: annotate_def acc pen tot)
  have "accepted_sentences (annotate st t) = 2"
    by (simp add: row)
  with assms(1) have "annotate st t \<in> set (get_sentence_counts st 2)"
    unfolding set_get_sentence_counts by simp
  then have 1: "\<lparr> technique = t, accepted_sentences = 2, pending_sentences = 1,
            total_sentences = 3 \<rparr> \<in> set (get_sentence_counts st 2)"
    by (simp add: row)
  then have "at_id t \<in> (\<lambda>r. at_id (technique r)) ` set (get_sentence_counts st 2)"
    by force
  then have 2: "set (mappings_to st t) \<subseteq> set (filter
                (\<lambda>m. case stm_attack_technique m of
                        None \<Rightarrow> False
                      | Some k \<Rightarrow> k \<in> set (map (\<lambda>r. at_id (technique r)) (get_sentence_counts st 2)))
                (sentence_technique_mappings st))"
    by (auto simp: mappings_to_def)
  from 1 2 show ?thesis
    by (simp add: SentenceTechniqueMapping_get_accepted_mappings_def AttackTechnique_getattr_def)
qed

text \<open>The scenario on the example database, where the three rows are those of T1003.\<close>

theorem scenario_accept_accept_none_witness:
  "T1003 \<in> set (attack_techniques example_db)
   \<and> mset (map (\<lambda>(m, s). s_disposition s) (sentences_join example_db T1003))
        = {#Accept, Accept, NoDisposition#}
   \<and> \<lparr> technique = T1003, accepted_sentences = 2, pending_sentences = 1,
         total_sentences = 3 \<rparr> \<in> set (get_sentence_counts example_db 2)
   \<and> (\<exists>ms. SentenceTechniqueMapping_get_accepted_mappings \<lparr> ML_ACCEPT_THRESHOLD = 2 \<rparr>
               example_db = Inr ms
            \<and> set (mappings_to example_db T1003) \<subseteq> set ms)
   \<and> mappings_to example_db T1003 = [stm 1 1 (Some 1), stm 2 2 (Some 1), stm 3 3 (Some 1)]"
proof -
  have h1: "T1003 \<in> set (attack_techniques example_db)"
    by (simp add: example_defs)
  have h2: "mset (map (\<lambda>(m, s). s_disposition s) (sentences_join example_db T1003))
        = {#Accept, Accept, NoDisposition#}"
    by (simp add: example_defs sentences_join_def)
  have h3: "mappings_to example_db T1003 = [stm 1 1 (Some 1), stm 2 2 (Some 1), stm 3 3 (Some 1)]"
    by (simp add: example_defs mappings_to_def)
  from scenario_accept_accept_none [OF h1 h2] h1 h2 h3 show ?thesis
    by blast
qed

section \<open>Duplicate mapping rows\<close>

text \<open>
  Claim C2. The claim asks that each distinct sentence-to-entry association be counted
  once, even with several mapping rows for one pair, as the docstring of the query promises
  ("how many training sentences"). The query counts mapping rows instead: with one accepted
  sentence proposed twice for T1003 it reports accepted 2 and total 2, where there is one
  distinct association, and that single sentence carries T1003 over threshold 2.
\<close>

theorem duplicate_rows_counted_twice:
  "get_sentence_counts duplicate_db 2
     = [\<lparr> technique = T1003, accepted_sentences = 2, pending_sentences = 0,
           total_sentences = 2 \<rparr>]
   \<and> spec_distinct_total duplicate_db T1003 = 1
   \<and> spec_distinct_count duplicate_db T1003 Accept = 1
   \<and> total_sentences (annotate duplicate_db T1003) \<noteq> spec_distinct_total duplicate_db T1003
   \<and> accepted_sentences (annotate duplicate_db T1003)
       \<noteq> spec_distinct_count duplicate_db T1003 Accept"
  by (simp add: get_sentence_counts_def annotate_def Count_sentences_def
      Count_sentences_filter_def sentences_join_def spec_distinct_total_def
      spec_distinct_count_def example_defs)

section \<open>Report-level acceptance queries\<close>

text \<open>
  Claim C3. The claim asks that the report-level \<^verbatim>\<open>get_accepted_mappings\<close> of techniques and
  groups return the report mappings whose target meets the threshold. Both look up
  \<^verbatim>\<open>get_report_counts\<close>, which neither \<^verbatim>\<open>AttackTechnique\<close> nor \<^verbatim>\<open>AttackGroup\<close> defines, so on
  every database and configuration both raise \<^verbatim>\<open>AttributeError\<close> and return nothing.
\<close>

theorem report_get_accepted_mappings_raise:
  "ReportTechniqueMapping_get_accepted_mappings cfg st = Inl (AttributeError ''get_report_counts'')
   \<and> ReportGroupMapping_get_accepted_mappings cfg st = Inl (AttributeError ''get_report_counts'')"
  by (simp add: ReportTechniqueMapping_get_accepted_mappings_def
      ReportGroupMapping_get_accepted_mappings_def AttackTechnique_getattr_def
      AttackGroup_getattr_def)

section \<open>Threshold zero\<close>

text \<open>
  Claim C4. As stated (threshold 0 returns exactly the entries with at least one mapped
  sentence) the claim fails: in a registry of one technique without any mapping row, the
  technique is returned.
\<close>

theorem threshold_zero_returns_unmapped:
  "T1003 \<in> technique ` set (get_sentence_counts unmapped_db 0)
   \<and> \<not> has_mapped_sentence unmapped_db T1003"
  by (simp add: get_sentence_counts_def annotate_def Count_sentences_def
      Count_sentences_filter_def sentences_join_def has_mapped_sentence_def example_defs)

text \<open>
  Claim C4, as amended. \<^verbatim>\<open>get_sentence_counts\<close> with threshold 0 returns every technique of the
  registry exactly once, whether or not a sentence is mapped to it.
\<close>

theorem threshold_zero_returns_registry:
  "mset (map technique (get_sentence_counts st 0)) = mset (attack_techniques st)"
proof -
  have "get_sentence_counts st 0 = sort_key order_key (map (annotate st) (attack_techniques st))"
    by (simp add: get_sentence_counts_def)
  moreover have "map technique (map (annotate st) ts) = ts" for ts
    by (induction ts) simp_all
  ultimately show ?thesis
    by (metis mset_map mset_sort)
qed

section \<open>Accounting of the three counts\<close>

text \<open>
  Claim C5. As stated (for every state of the store, accepted + pending +
  rejected-but-present = total, rejected-but-present being the number of sentences with
  disposition reject that have a mapping to the entry) the claim fails. A mapped sentence
  whose disposition is none of the three choices is in total and in none of the three
  summands (0 + 0 + 0 against 1); a rejected sentence proposed twice is one sentence and
  two rows of the total (0 + 0 + 1 against 2).
\<close>

theorem counts_do_not_add_up:
  "accepted_sentences (annotate unchecked_db T1003) = 0
   \<and> pending_sentences (annotate unchecked_db T1003) = 0
   \<and> rejected_but_present unchecked_db T1003 = 0
   \<and> total_sentences (annotate unchecked_db T1003) = 1
   \<and> accepted_sentences (annotate rejected_twice_db T1003) = 0
   \<and> pending_sentences (annotate rejected_twice_db T1003) = 0
   \<and> rejected_but_present rejected_twice_db T1003 = 1
   \<and> total_sentences (annotate rejected_twice_db T1003) = 2"
  by (simp add: annotate_def Count_sentences_def Count_sentences_filter_def sentences_join_def
      rejected_but_present_def mappings_to_def example_defs)

text \<open>
  Claim C5, as amended. In a store where sentence primary keys are unique and every sentence has
  one of the three dispositions of \<^verbatim>\<open>DISPOSITION_CHOICES\<close>, for every technique to which no
  sentence is mapped by more than one row, the counts that \<^verbatim>\<open>get_sentence_counts\<close> computes
  satisfy accepted + pending + rejected-but-present = total; so do the counts of that
  technique's entry in the result at any threshold.
\<close>

theorem counts_add_up:
  assumes "distinct (map s_id (sentences st))"
    and "list_all (\<lambda>s. s_disposition s \<in> set DISPOSITION_CHOICES) (sentences st)"
    and "distinct (map stm_sentence (mappings_to st t))"
  shows "accepted_sentences (annotate st t) + pending_sentences (annotate st t)
           + rejected_but_present st t = total_sentences (annotate st t)
       \<and> (\<forall>r \<in> set (get_sentence_counts st thr). technique r = t \<longrightarrow>
            accepted_sentences r + pending_sentences r + rejected_but_present st t
              = total_sentences r)"
proof -
  have "Count_sentences_filter st t Accept + Count_sentences_filter st t NoDisposition
          + Count_sentences_filter st t Reject = Count_sentences st t"
    unfolding Count_sentences_filter_def Count_sentences_def
    by (rule count_by_disposition [OF join_dispositions_valid [OF assms(2)]])
  then have row: "accepted_sentences (annotate st t) + pending_sentences (annotate st t)
           + rejected_but_present st t = total_sentences (annotate st t)"
    by (simp add: annotate_def Count_rejected_sentences [OF assms(1) assms(3)])
  have "accepted_sentences r + pending_sentences r + rejected_but_present st t
              = total_sentences r"
    if "r \<in> set (get_sentence_counts st thr)" and "technique r = t" for r
  proof -
    from that(1) obtain u where "r = annotate st u"
      unfolding set_get_sentence_counts by blast
    with that(2) have "r = annotate st t" by simp
    with row show ?thesis by simp
  qed
  with row show ?thesis by blast
qed

text \<open>On the example database T1059 has one accepted and one rejected sentence.\<close>

theorem counts_add_up_witness:
  "distinct (map s_id (sentences example_db))
   \<and> list_all (\<lambda>s. s_disposition s \<in> set DISPOSITION_CHOICES) (sentences example_db)
   \<and> distinct (map stm_sentence (mappings_to example_db T1059))
   \<and> \<lparr> technique = T1059, accepted_sentences = 1, pending_sentences = 0, total_sentences = 2 \<rparr>
       \<in> set (get_sentence_counts example_db 0)
   \<and> rejected_but_present example_db T1059 = 1
   \<and> (1::nat) + 0 + rejected_but_present example_db T1059 = 2"
proof -
  have h1: "distinct (map s_id (sentences example_db))"
    and h2: "list_all (\<lambda>s. s_disposition s \<in> set DISPOSITION_CHOICES) (sentences example_db)"
    and h3: "distinct (map stm_sentence (mappings_to example_db T1059))"
    by (simp_all add: example_defs DISPOSITION_CHOICES_def mappings_to_def)
  have h4: "\<lparr> technique = T1059, accepted_sentences = 1, pending_sentences = 0,
             total_sentences = 2 \<rparr> \<in> set (get_sentence_counts example_db 0)"
    by code_simp
  have r: "rejected_but_present example_db T1059 = 1"
    by code_simp
  from counts_add_up [OF h1 h2 h3, of 0] h4
  have "(1::nat) + 0 + rejected_but_present example_db T1059 = 2"
    by fastforce
  with h1 h2 h3 h4 r show ?thesis by (intro conjI)
qed

section \<open>Monotonicity in the threshold\<close>

text \<open>
  Claim C6. On a fixed database, for thresholds \<open>t1 \<le> t2\<close> the result of
  \<^verbatim>\<open>get_sentence_counts\<close> at \<open>t2\<close> has at most as many entries as the result at \<open>t1\<close>.
\<close>

theorem get_sentence_counts_antimono:
  assumes "t1 \<le> t2"
  shows "length (get_sentence_counts st t2) \<le> length (get_sentence_counts st t1)"
  unfolding get_sentence_counts_def using assms by (intro length_filter_mono) simp

theorem get_sentence_counts_antimono_witness:
  "(1::int) \<le> 2
   \<and> length (get_sentence_counts example_db 2) \<le> length (get_sentence_counts example_db 1)
   \<and> length (get_sentence_counts example_db 2) = 1
   \<and> length (get_sentence_counts example_db 1) = 3"
proof -
  have h: "(1::int) \<le> 2" by simp
  have "length (get_sentence_counts example_db 2) = 1"
    and "length (get_sentence_counts example_db 1) = 3"
    by code_simp+
  with get_sentence_counts_antimono [OF h, of example_db] h show ?thesis
    by simp
qed

section \<open>Selection and order of the result\<close>

text \<open>
  Claim C7. The result of \<^verbatim>\<open>get_sentence_counts\<close> holds exactly the annotated techniques
  whose accepted count is at least the threshold; an entry never has a smaller accepted count
  than a later one, and of two entries with equal accepted counts the earlier has the
  lexicographically smaller or equal \<^verbatim>\<open>attack_id\<close>.
\<close>

theorem get_sentence_counts_filtered_and_ordered:
  "set (get_sentence_counts st thr)
     = annotate st ` {t \<in> set (attack_techniques st).
                        thr \<le> int (accepted_sentences (annotate st t))}
   \<and> (\<forall>i j. i < j \<longrightarrow> j < length (get_sentence_counts st thr) \<longrightarrow>
         accepted_sentences (get_sentence_counts st thr ! j)
           \<le> accepted_sentences (get_sentence_counts st thr ! i)
         \<and> (accepted_sentences (get_sentence_counts st thr ! i)
              = accepted_sentences (get_sentence_counts st thr ! j) \<longrightarrow>
            attack_id (technique (get_sentence_counts st thr ! i))
              \<le> attack_id (technique (get_sentence_counts st thr ! j))))"
proof (intro conjI allI impI)
  show "set (get_sentence_counts st thr)
     = annotate st ` {t \<in> set (attack_techniques st).
                        thr \<le> int (accepted_sentences (annotate st t))}"
    by (auto simp: set_get_sentence_counts)
next
  fix i j assume ij: "i < j" "j < length (get_sentence_counts st thr)"
  let ?out = "get_sentence_counts st thr"
  from sorted_get_sentence_counts [of st thr] ij
  have "map order_key ?out ! i \<le> map order_key ?out ! j"
    by (simp add: sorted_iff_nth_mono)
  with ij have le: "order_key (?out ! i) \<le> order_key (?out ! j)" by simp
  then show "accepted_sentences (?out ! j) \<le> accepted_sentences (?out ! i)"
    by (auto simp: order_key_def)
  assume "accepted_sentences (?out ! i) = accepted_sentences (?out ! j)"
  with le show "attack_id (technique (?out ! i)) \<le> attack_id (technique (?out ! j))"
    by (auto simp: order_key_def)
qed

text \<open>On the example database T1059 and T1105 tie at one accepted sentence and come in
  the order of their identifiers, after T1003.\<close>

theorem get_sentence_counts_filtered_and_ordered_witness:
  "(1::nat) < 2 \<and> 2 < length (get_sentence_counts example_db 0)
   \<and> accepted_sentences (get_sentence_counts example_db 0 ! 1)
       = accepted_sentences (get_sentence_counts example_db 0 ! 2)
   \<and> attack_id (technique (get_sentence_counts example_db 0 ! 1))
       \<le> attack_id (technique (get_sentence_counts example_db 0 ! 2))
   \<and> map (\<lambda>r. (attack_id (technique r), accepted_sentences r)) (get_sentence_counts example_db 0)
       = [(''T1003'', 2), (''T1059'', 1), (''T1105'', 1)]"
proof -
  have l: "map (\<lambda>r. (attack_id (technique r), accepted_sentences r))
        (get_sentence_counts example_db 0) = [(''T1003'', 2), (''T1059'', 1), (''T1105'', 1)]"
    by code_simp
  have h1: "(1::nat) < 2" by simp
  have h2: "2 < length (get_sentence_counts example_db 0)" by code_simp
  have h3: "accepted_sentences (get_sentence_counts example_db 0 ! 1)
       = accepted_sentences (get_sentence_counts example_db 0 ! 2)" by code_simp
  from get_sentence_counts_filtered_and_ordered [of example_db 0]
  have "\<forall>i j. i < j \<longrightarrow> j < length (get_sentence_counts example_db 0) \<longrightarrow>
         accepted_sentences (get_sentence_counts example_db 0 ! j)
           \<le> accepted_sentences (get_sentence_counts example_db 0 ! i)
         \<and> (accepted_sentences (get_sentence_counts example_db 0 ! i)
              = accepted_sentences (get_sentence_counts example_db 0 ! j) \<longrightarrow>
            attack_id (technique (get_sentence_counts example_db 0 ! i))
              \<le> attack_id (technique (get_sentence_counts example_db 0 ! j)))"
    by (rule conjunct2)
  from this [rule_format, OF h1 h2]
  have "attack_id (technique (get_sentence_counts example_db 0 ! 1))
       \<le> attack_id (technique (get_sentence_counts example_db 0 ! 2))"
    using h3 by (elim conjE impE)
  with h1 h2 h3 l show ?thesis by (intro conjI)
qed

section \<open>Promotion of a reviewed suggestion\<close>

text \<open>
  Claim C8. As stated (a mapping row is created when the identifier is in the registry,
  and none when it is not) the claim fails: \<^verbatim>\<open>from_mapping\<close> never calls \<^verbatim>\<open>save\<close>. With the
  registered identifier T1059 it returns a mapping object without a primary key and the
  mapping table has the seven rows it had before.
\<close>

theorem from_mapping_saves_nothing:
  "fst (from_mapping example_db (sentence 5 Reject)
          \<lparr> sg_attack_technique = ''T1059'', sg_confidence = 9 / 10 \<rparr>)
     = Inr \<lparr> stm_id = None, stm_report = 1, stm_sentence = 5,
             stm_attack_technique = Some 2, stm_confidence = 9 / 10 \<rparr>
   \<and> snd (from_mapping example_db (sentence 5 Reject)
          \<lparr> sg_attack_technique = ''T1059'', sg_confidence = 9 / 10 \<rparr>) = example_db
   \<and> length (sentence_technique_mappings example_db) = 7
   \<and> length (sentence_technique_mappings
        (snd (from_mapping example_db (sentence 5 Reject)
          \<lparr> sg_attack_technique = ''T1059'', sg_confidence = 9 / 10 \<rparr>))) = 7"
  by (simp add: from_mapping_def AttackTechnique_objects_get_def example_defs)

text \<open>
  Claim C8, as amended. When the external identifier of the suggestion is that of no technique,
  \<^verbatim>\<open>from_mapping\<close> fails with \<^verbatim>\<open>DoesNotExist\<close> and creates no mapping row; when it is the
  identifier of a technique (identifiers being unique), it returns a new, unsaved mapping
  object with the report of the sentence, the sentence, that technique and the confidence
  of the suggestion, and creates no mapping row either: saving is left to the caller.
\<close>

theorem from_mapping_lookup:
  "(sg_attack_technique mapping \<notin> attack_id ` set (attack_techniques st) \<longrightarrow>
      from_mapping st mapping_input mapping = (Inl DoesNotExist, st))
   \<and> (distinct (map attack_id (attack_techniques st)) \<and> t \<in> set (attack_techniques st)
        \<and> attack_id t = sg_attack_technique mapping \<longrightarrow>
      from_mapping st mapping_input mapping
        = (Inr \<lparr> stm_id = None, stm_report = s_report mapping_input,
                  stm_sentence = s_id mapping_input,
                  stm_attack_technique = Some (at_id t),
                  stm_confidence = sg_confidence mapping \<rparr>, st))"
proof (intro conjI impI)
  assume "sg_attack_technique mapping \<notin> attack_id ` set (attack_techniques st)"
  from objects_get_absent [OF this]
  show "from_mapping st mapping_input mapping = (Inl DoesNotExist, st)"
    by (simp add: from_mapping_def)
next
  assume a: "distinct (map attack_id (attack_techniques st)) \<and> t \<in> set (attack_techniques st)
        \<and> attack_id t = sg_attack_technique mapping"
  then have "AttackTechnique_objects_get st (sg_attack_technique mapping) = Inr t"
    using objects_get_present [of st t] by simp
  then show "from_mapping st mapping_input mapping
        = (Inr \<lparr> stm_id = None, stm_report = s_report mapping_input,
                  stm_sentence = s_id mapping_input,
                  stm_attack_technique = Some (at_id t),
                  stm_confidence = sg_confidence mapping \<rparr>, st)"
    by (simp add: from_mapping_def)
qed

theorem from_mapping_lookup_witness:
  "''T9999'' \<notin> attack_id ` set (attack_techniques example_db)
   \<and> from_mapping example_db (sentence 5 Reject)
        \<lparr> sg_attack_technique = ''T9999'', sg_confidence = 9 / 10 \<rparr>
       = (Inl DoesNotExist, example_db)
   \<and> distinct (map attack_id (attack_techniques example_db))
   \<and> T1059 \<in> set (attack_techniques example_db)
   \<and> from_mapping example_db (sentence 5 Reject)
        \<lparr> sg_attack_technique = ''T1059'', sg_confidence = 9 / 10 \<rparr>
       = (Inr \<lparr> stm_id = None, stm_report = 1, stm_sentence = 5,
                 stm_attack_technique = Some 2, stm_confidence = 9 / 10 \<rparr>, example_db)"
proof -
  have h1: "''T9999'' \<notin> attack_id ` set (attack_techniques example_db)"
    by (simp add: example_defs)
  have h2: "distinct (map attack_id (attack_techniques example_db))"
    and h3: "T1059 \<in> set (attack_techniques example_db)"
    and h4: "attack_id T1059 = ''T1059''" "at_id T1059 = 2"
      "s_report (sentence 5 Reject) = 1" "s_id (sentence 5 Reject) = 5"
    by (simp_all add: example_defs)
  from from_mapping_lookup [where mapping = "\<lparr> sg_attack_technique = ''T9999'', sg_confidence = 9 / 10 \<rparr>"
      and st = example_db and mapping_input = "sentence 5 Reject"] h1
  have a: "from_mapping example_db (sentence 5 Reject)
        \<lparr> sg_attack_technique = ''T9999'', sg_confidence = 9 / 10 \<rparr>
       = (Inl DoesNotExist, example_db)" by simp
  from from_mapping_lookup [where mapping = "\<lparr> sg_attack_technique = ''T1059'', sg_confidence = 9 / 10 \<rparr>"
      and st = example_db and t = T1059 and mapping_input = "sentence 5 Reject"] h2 h3 h4
  have b: "from_mapping example_db (sentence 5 Reject)
        \<lparr> sg_attack_technique = ''T1059'', sg_confidence = 9 / 10 \<rparr>
       = (Inr \<lparr> stm_id = None, stm_report = 1, stm_sentence = 5,
                 stm_attack_technique = Some 2, stm_confidence = 9 / 10 \<rparr>, example_db)"
    by simp
  from a b h1 h2 h3 show ?thesis by blast
qed

section \<open>Cleanup of a missing file\<close>

text \<open>
  Claim C9. When the path does not resolve to an existing regular file, \<^verbatim>\<open>_delete_file\<close>
  raises nothing and leaves the file system unchanged, run once or twice, and so does the
  \<^verbatim>\<open>post_delete\<close> receiver for a document whose file is stored at that path.
\<close>

theorem delete_file_missing_noop:
  assumes "\<not> os_path_isfile fs path"
  shows "delete_file fs path = Inr fs
       \<and> delete_file_twice fs path = Inr fs
       \<and> (storage_path (docfile inst) = path \<longrightarrow>
            delete_file_post_delete storage_path fs inst = Inr fs)"
  using assms by (simp add: delete_file_def delete_file_twice_def delete_file_post_delete_def)

theorem delete_file_missing_noop_witness:
  "\<not> os_path_isfile [''/media/kept.pdf'' \<mapsto> RegularFile ''bytes''] ''/media/report.pdf''
   \<and> media_path (docfile report_doc) = ''/media/report.pdf''
   \<and> delete_file [''/media/kept.pdf'' \<mapsto> RegularFile ''bytes''] ''/media/report.pdf''
       = Inr [''/media/kept.pdf'' \<mapsto> RegularFile ''bytes'']
   \<and> delete_file_twice [''/media/kept.pdf'' \<mapsto> RegularFile ''bytes''] ''/media/report.pdf''
       = Inr [''/media/kept.pdf'' \<mapsto> RegularFile ''bytes'']
   \<and> delete_file_post_delete media_path [''/media/kept.pdf'' \<mapsto> RegularFile ''bytes'']
         report_doc
       = Inr [''/media/kept.pdf'' \<mapsto> RegularFile ''bytes'']"
proof -
  have h: "\<not> os_path_isfile [''/media/kept.pdf'' \<mapsto> RegularFile ''bytes''] ''/media/report.pdf''"
    by (simp add: os_path_isfile_def)
  have p: "media_path (docfile report_doc) = ''/media/report.pdf''"
    by (simp add: media_path_def report_doc_def)
  from delete_file_missing_noop [OF h, of media_path report_doc] h p show ?thesis
    by blast
qed

section \<open>Creation of a processing job\<close>

text \<open>
  Claim C10. As stated (every \<^verbatim>\<open>File\<close> input gives a persisted document holding the file
  and a queued job) the claim fails: saving the document hands the file to the storage,
  which can refuse it. A file opened from the absolute path \<^verbatim>\<open>/tmp/report.pdf\<close> makes the
  storage raise \<^verbatim>\<open>SuspiciousFileOperation\<close>; no document and no job is written.
\<close>

theorem create_from_file_refused:
  "isinstance_File (FileObj tmp_report_pdf)
   \<and> create_from_file (media_storage_save ''report.pdf'') empty_db Map.empty
         (FileObj tmp_report_pdf)
       = (Inl SuspiciousFileOperation, empty_db, Map.empty)
   \<and> documents empty_db = []
   \<and> document_processing_jobs empty_db = []"
  by (simp add: create_from_file_def Document_save_def media_storage_save_def
      tmp_report_pdf_def empty_db_def)

text \<open>
  Claim C10, as amended. When \<open>f\<close> is not a \<^verbatim>\<open>File\<close> instance, \<^verbatim>\<open>create_from_file\<close>
  raises \<^verbatim>\<open>AssertionError\<close> and persists nothing. When \<open>f\<close> is a named \<^verbatim>\<open>File\<close> that the
  storage refuses, the exception of the storage is raised and neither a document nor a job
  is written. When the storage accepts the file, the method appends one document row
  whose \<^verbatim>\<open>docfile\<close> is the name the storage stored the file under and one job row, both with
  fresh primary keys, the job referencing the document with status queued, and returns
  that job. A \<^verbatim>\<open>File\<close> without a name is not handed to the storage: the document row is
  written with an empty \<^verbatim>\<open>docfile\<close>, with its queued job.
\<close>

theorem create_from_file_asserts:
  "(\<not> isinstance_File f \<longrightarrow>
      create_from_file storage st fs f = (Inl AssertionError, st, fs))
   \<and> (f = FileObj fl \<and> f_name fl \<noteq> [] \<and> storage fs fl = (Inl e, fs1) \<longrightarrow>
        create_from_file storage st fs f = (Inl e, st, fs1))
   \<and> (f = FileObj fl
        \<and> (f_name fl \<noteq> [] \<and> storage fs fl = (Inr name, fs1)
            \<or> f_name fl = [] \<and> name = [] \<and> fs1 = fs) \<longrightarrow>
        (\<exists>doc dpj st'.
           create_from_file storage st fs f = (Inr dpj, st', fs1)
           \<and> documents st' = documents st @ [doc]
           \<and> document_processing_jobs st' = document_processing_jobs st @ [dpj]
           \<and> docfile doc = name
           \<and> doc_id doc \<notin> set (map doc_id (documents st))
           \<and> dpj_id dpj \<notin> set (map dpj_id (document_processing_jobs st))
           \<and> dpj_document dpj = doc_id doc
           \<and> dpj_status dpj = Queued))"
proof (intro conjI impI)
  assume "\<not> isinstance_File f"
  then show "create_from_file storage st fs f = (Inl AssertionError, st, fs)"
    by (simp add: create_from_file_def)
next
  assume "f = FileObj fl \<and> f_name fl \<noteq> [] \<and> storage fs fl = (Inl e, fs1)"
  then show "create_from_file storage st fs f = (Inl e, st, fs1)"
    by (simp add: create_from_file_def Document_save_def)
next
  assume a: "f = FileObj fl
        \<and> (f_name fl \<noteq> [] \<and> storage fs fl = (Inr name, fs1)
            \<or> f_name fl = [] \<and> name = [] \<and> fs1 = fs)"
  define doc where "doc = \<lparr> doc_id = next_id (map doc_id (documents st)),
                  docfile = name, doc_created_by = None \<rparr>"
  define dpj where "dpj = \<lparr> dpj_id = next_id (map dpj_id (document_processing_jobs st)),
                  dpj_document = doc_id doc, dpj_status = Queued,
                  dpj_message = [], dpj_created_by = None \<rparr>"
  define st' where "st' = st\<lparr> documents := documents st @ [doc],
                  document_processing_jobs := document_processing_jobs st @ [dpj] \<rparr>"
  from a have saved: "Document_save storage st fs fl
      = (Inr doc, st\<lparr> documents := documents st @ [doc] \<rparr>, fs1)"
    by (auto simp: Document_save_def Document_insert_def Let_def doc_def)
  from a have f: "f = FileObj fl" by simp
  have run: "create_from_file storage st fs f = (Inr dpj, st', fs1)"
    by (simp add: f create_from_file_def saved DocumentProcessingJob_save_def
        Let_def dpj_def st'_def)
  have "doc_id doc \<notin> set (map doc_id (documents st))"
    and "dpj_id dpj \<notin> set (map dpj_id (document_processing_jobs st))"
    by (simp_all only: doc_def dpj_def Document.simps DocumentProcessingJob.simps next_id_fresh
        not_False_eq_True)
  moreover have "documents st' = documents st @ [doc]"
    and "document_processing_jobs st' = document_processing_jobs st @ [dpj]"
    and "docfile doc = name" and "dpj_document dpj = doc_id doc" and "dpj_status dpj = Queued"
    by (simp_all add: st'_def doc_def dpj_def)
  ultimately show "\<exists>doc dpj st'.
           create_from_file storage st fs f = (Inr dpj, st', fs1)
           \<and> documents st' = documents st @ [doc]
           \<and> document_processing_jobs st' = document_processing_jobs st @ [dpj]
           \<and> docfile doc = name
           \<and> doc_id doc \<notin> set (map doc_id (documents st))
           \<and> dpj_id dpj \<notin> set (map dpj_id (document_processing_jobs st))
           \<and> dpj_document dpj = doc_id doc
           \<and> dpj_status dpj = Queued"
    using run by blast
qed

theorem create_from_file_asserts_witness:
  "\<not> isinstance_File (StrObj ''report.pdf'')
   \<and> create_from_file (media_storage_save ''report.pdf'') empty_db Map.empty
         (StrObj ''report.pdf'')
       = (Inl AssertionError, empty_db, Map.empty)
   \<and> f_name tmp_report_pdf \<noteq> []
   \<and> media_storage_save ''report.pdf'' Map.empty tmp_report_pdf
       = (Inl SuspiciousFileOperation, Map.empty)
   \<and> create_from_file (media_storage_save ''report.pdf'') empty_db Map.empty
         (FileObj tmp_report_pdf)
       = (Inl SuspiciousFileOperation, empty_db, Map.empty)
   \<and> f_name report_pdf \<noteq> []
   \<and> media_storage_save ''report.pdf'' Map.empty report_pdf
       = (Inr ''report.pdf'', [''/media/report.pdf'' \<mapsto> RegularFile ''bytes''])
   \<and> create_from_file (media_storage_save ''report.pdf'') empty_db Map.empty
         (FileObj report_pdf)
       = (Inr \<lparr> dpj_id = 1, dpj_document = 1, dpj_status = Queued, dpj_message = [],
                 dpj_created_by = None \<rparr>,
          empty_db \<lparr> documents := [report_doc],
                     document_processing_jobs :=
                       [\<lparr> dpj_id = 1, dpj_document = 1, dpj_status = Queued, dpj_message = [],
                           dpj_created_by = None \<rparr>] \<rparr>,
          [''/media/report.pdf'' \<mapsto> RegularFile ''bytes''])
   \<and> f_name unnamed_file = []
   \<and> fst (create_from_file (media_storage_save ''report.pdf'') empty_db Map.empty
         (FileObj unnamed_file))
       = Inr \<lparr> dpj_id = 1, dpj_document = 1, dpj_status = Queued, dpj_message = [],
                 dpj_created_by = None \<rparr>"
proof -
  let ?sto = "media_storage_save ''report.pdf''"
  have h1: "\<not> isinstance_File (StrObj ''report.pdf'')" by simp
  have h2: "f_name tmp_report_pdf \<noteq> []"
    and h3: "?sto Map.empty tmp_report_pdf = (Inl SuspiciousFileOperation, Map.empty)"
    by (simp_all add: tmp_report_pdf_def media_storage_save_def)
  have h4: "f_name report_pdf \<noteq> []"
    and h5: "?sto Map.empty report_pdf
       = (Inr ''report.pdf'', [''/media/report.pdf'' \<mapsto> RegularFile ''bytes''])"
    by (simp_all add: report_pdf_def media_storage_save_def media_path_def)
  have h6: "f_name unnamed_file = []"
    by (simp add: unnamed_file_def)
  from create_from_file_asserts [of "StrObj ''report.pdf''" ?sto empty_db Map.empty] h1
  have a: "create_from_file ?sto empty_db Map.empty (StrObj ''report.pdf'')
       = (Inl AssertionError, empty_db, Map.empty)"
    by blast
  from create_from_file_asserts [where f = "FileObj tmp_report_pdf" and fl = tmp_report_pdf
      and storage = ?sto and st = empty_db and fs = Map.empty
      and e = SuspiciousFileOperation and ?fs1.0 = Map.empty] h2 h3
  have b: "create_from_file ?sto empty_db Map.empty (FileObj tmp_report_pdf)
       = (Inl SuspiciousFileOperation, empty_db, Map.empty)"
    by blast
  have c: "create_from_file ?sto empty_db Map.empty (FileObj report_pdf)
       = (Inr \<lparr> dpj_id = 1, dpj_document = 1, dpj_status = Queued, dpj_message = [],
                 dpj_created_by = None \<rparr>,
          empty_db \<lparr> documents := [report_doc],
                     document_processing_jobs :=
                       [\<lparr> dpj_id = 1, dpj_document = 1, dpj_status = Queued, dpj_message = [],
                           dpj_created_by = None \<rparr>] \<rparr>,
          [''/media/report.pdf'' \<mapsto> RegularFile ''bytes''])"
    by (simp add: create_from_file_def Document_save_def Document_insert_def
        DocumentProcessingJob_save_def next_id_def empty_db_def Let_def h4 h5 report_doc_def)
  have d: "fst (create_from_file ?sto empty_db Map.empty (FileObj unnamed_file))
       = Inr \<lparr> dpj_id = 1, dpj_document = 1, dpj_status = Queued, dpj_message = [],
                 dpj_created_by = None \<rparr>"
    by (simp add: create_from_file_def Document_save_def Document_insert_def
        DocumentProcessingJob_save_def next_id_def empty_db_def Let_def unnamed_file_def)
  from h1 a h2 h3 b h4 h5 c h6 d show ?thesis by (intro conjI)
qed

end
